theory Spec2Isabelle
  imports Main "HOL-Library.Word"
begin

unbundle bit_operations_syntax

section \<open>grokdisk: reading the MBR partition table of a disk image\<close>

text \<open>
  A shallow embedding of \<^verbatim>\<open>partition.go\<close>. The Go structs are records, the values
  behind Go pointers live in an explicit heap, and \<^verbatim>\<open>AnalyzeImageFile\<close> threads that
  heap and the open file through its steps. The operating system and the Go standard
  library (\<^verbatim>\<open>os.Open\<close>, \<^verbatim>\<open>File.Seek\<close>, \<^verbatim>\<open>io.ReadFull\<close>, \<^verbatim>\<open>binary.Read\<close>,
  \<^verbatim>\<open>errors.Wrap\<close>) are modelled by the small functions of the next subsections.
\<close>

subsection \<open>Machine types and constants\<close>

type_synonym byte = "8 word"
type_synonym uint16 = "16 word"
type_synonym uint32 = "32 word"
type_synonym uint64 = "64 word"

text \<open>A Go pointer: \<open>None\<close> is \<^verbatim>\<open>nil\<close>, \<open>Some a\<close> the address of an allocated value.\<close>

type_synonym addr = nat
type_synonym pointer = "addr option"

definition MBRPartitionTableOffset :: int where
  "MBRPartitionTableOffset = 0x1BE"

definition MBRPartitionTableSize :: nat where
  "MBRPartitionTableSize = 0x10"

subsection \<open>The structs\<close>

record PartitionMetadata =
  Status :: byte
  StartHead :: byte
  StartSector :: byte
  StartCylinder :: byte
  PartitionType :: byte
  EndHead :: byte
  EndSector :: byte
  EndCylinder :: byte
  FirstSectorLBA :: uint32
  SectorCount :: uint32

text \<open>
  \<^verbatim>\<open>Partition\<close> embeds a \<^verbatim>\<open>*PartitionMetadata\<close> and points back to the
  \<^verbatim>\<open>ImageFileMetadata\<close> it was found in.
\<close>

record Partition =
  PartitionMetadata :: pointer
  ImageFile :: pointer

record ImageFileMetadata =
  SectorSize :: uint16
  Filepath :: string
  Partitions :: "pointer list"

subsection \<open>The heap\<close>

text \<open>
  One store for each struct type; an address is an index into the store, and allocation
  appends, so a new address is always fresh. Dereferencing \<^verbatim>\<open>nil\<close> (or an address
  that was never allocated) is Go's run-time panic, here \<open>None\<close>.
\<close>

record heap =
  images :: "ImageFileMetadata list"
  partitions :: "Partition list"
  metas :: "PartitionMetadata list"

definition empty_heap :: heap where
  "empty_heap = \<lparr>images = [], partitions = [], metas = []\<rparr>"

definition deref :: "'a list \<Rightarrow> pointer \<Rightarrow> 'a option" where
  "deref store p =
     (case p of None \<Rightarrow> None
      | Some a \<Rightarrow> if a < length store then Some (store ! a) else None)"

definition new_ImageFileMetadata :: "ImageFileMetadata \<Rightarrow> heap \<Rightarrow> addr \<times> heap" where
  "new_ImageFileMetadata v h = (length (images h), h\<lparr>images := images h @ [v]\<rparr>)"

definition new_Partition :: "Partition \<Rightarrow> heap \<Rightarrow> addr \<times> heap" where
  "new_Partition v h = (length (partitions h), h\<lparr>partitions := partitions h @ [v]\<rparr>)"

definition new_PartitionMetadata :: "PartitionMetadata \<Rightarrow> heap \<Rightarrow> addr \<times> heap" where
  "new_PartitionMetadata v h = (length (metas h), h\<lparr>metas := metas h @ [v]\<rparr>)"

text \<open>The zero value \<^verbatim>\<open>PartitionMetadata{}\<close>.\<close>

definition zero_PartitionMetadata :: PartitionMetadata where
  "zero_PartitionMetadata =
     \<lparr>Status = 0, StartHead = 0, StartSector = 0, StartCylinder = 0,
      PartitionType = 0, EndHead = 0, EndSector = 0, EndCylinder = 0,
      FirstSectorLBA = 0, SectorCount = 0\<rparr>"

subsection \<open>Errors\<close>

text \<open>
  The underlying causes the library calls report, and \<^verbatim>\<open>errors.Wrap(err, msg)\<close>, which
  keeps the cause and adds the message. Nothing else is stored in the error.
\<close>

datatype cause = ENOENT | ESPIPE | EINVAL | EOF | ErrUnexpectedEOF

datatype error = Wrap cause string

fun error_cause :: "error \<Rightarrow> cause" where
  "error_cause (Wrap c msg) = c"

fun error_message :: "error \<Rightarrow> string" where
  "error_message (Wrap c msg) = msg"

subsection \<open>Files\<close>

text \<open>
  What a path names: the bytes of the resource, and whether it can be positioned (a
  regular file can; a pipe or a terminal cannot). An open file adds the read position.
\<close>

record resource =
  contents :: "byte list"
  seekable :: bool

record File =
  res :: resource
  pos :: nat

type_synonym filesystem = "string \<Rightarrow> resource option"

definition os_Open :: "filesystem \<Rightarrow> string \<Rightarrow> cause + File" where
  "os_Open fs path =
     (case fs path of None \<Rightarrow> Inl ENOENT
      | Some r \<Rightarrow> Inr \<lparr>res = r, pos = 0\<rparr>)"

text \<open>
  \<^verbatim>\<open>File.Seek(offset, os.SEEK_SET)\<close> is \<^verbatim>\<open>lseek\<close>: it fails on a resource that cannot
  be positioned and on a negative offset; on a regular file every other offset is
  accepted, also one beyond the end of the file.
\<close>

definition File_Seek :: "File \<Rightarrow> int \<Rightarrow> cause + (int \<times> File)" where
  "File_Seek f off =
     (if \<not> seekable (res f) then Inl ESPIPE
      else if off < 0 then Inl EINVAL
      else Inr (off, f\<lparr>pos := nat off\<rparr>))"

text \<open>
  \<^verbatim>\<open>io.ReadFull(r, buf)\<close> with \<^verbatim>\<open>len(buf) = n\<close>: the next \<open>n\<close> bytes, or
  \<^verbatim>\<open>io.EOF\<close> when no byte is left and \<^verbatim>\<open>io.ErrUnexpectedEOF\<close> when some but fewer
  than \<open>n\<close> are. The bytes that were read are consumed in either case.
\<close>

definition io_ReadFull :: "File \<Rightarrow> nat \<Rightarrow> (cause + byte list) \<times> File" where
  "io_ReadFull f n =
     (let avail = drop (pos f) (contents (res f)) in
      if n \<le> length avail then (Inr (take n avail), f\<lparr>pos := pos f + n\<rparr>)
      else (Inl (if avail = [] then EOF else ErrUnexpectedEOF),
            f\<lparr>pos := pos f + length avail\<rparr>))"

subsection \<open>Decoding one entry\<close>

text \<open>\<^verbatim>\<open>binary.LittleEndian.Uint32(b)\<close>.\<close>

definition LittleEndian_Uint32 :: "byte list \<Rightarrow> uint32" where
  "LittleEndian_Uint32 b =
     ucast (b ! 0) OR push_bit 8 (ucast (b ! 1)) OR
     push_bit 16 (ucast (b ! 2)) OR push_bit 24 (ucast (b ! 3))"

text \<open>
  The decoder of \<^verbatim>\<open>binary.Read\<close> walks the fields of \<^verbatim>\<open>PartitionMetadata\<close> in
  declaration order over a buffer of the struct's size: eight single bytes, then two
  \<^verbatim>\<open>uint32\<close> in the given byte order.
\<close>

definition decode_PartitionMetadata :: "byte list \<Rightarrow> PartitionMetadata" where
  "decode_PartitionMetadata buf =
     \<lparr>Status = buf ! 0, StartHead = buf ! 1, StartSector = buf ! 2,
      StartCylinder = buf ! 3, PartitionType = buf ! 4, EndHead = buf ! 5,
      EndSector = buf ! 6, EndCylinder = buf ! 7,
      FirstSectorLBA = LittleEndian_Uint32 (take 4 (drop 8 buf)),
      SectorCount = LittleEndian_Uint32 (take 4 (drop 12 buf))\<rparr>"

text \<open>
  \<^verbatim>\<open>binary.Read(imageFile, binary.LittleEndian, metadata)\<close> sizes its buffer by the
  struct (eight bytes and two \<^verbatim>\<open>uint32\<close>) and fills it with \<^verbatim>\<open>io.ReadFull\<close>; on an
  error the target is left as it was, otherwise the decoded value is stored through the
  pointer.
\<close>

definition dataSize_PartitionMetadata :: nat where
  "dataSize_PartitionMetadata = 8 * 1 + 2 * 4"

definition binary_Read :: "File \<Rightarrow> addr \<Rightarrow> heap \<Rightarrow> cause option \<times> File \<times> heap" where
  "binary_Read f metadata h =
     (case io_ReadFull f dataSize_PartitionMetadata of
        (Inl err, f') \<Rightarrow> (Some err, f', h)
      | (Inr buf, f') \<Rightarrow>
          (None, f', h\<lparr>metas := (metas h)[metadata := decode_PartitionMetadata buf]\<rparr>))"

subsection \<open>AnalyzeImageFile\<close>

text \<open>
  \<^verbatim>\<open>imageMetadata.Partitions = append(imageMetadata.Partitions, partition)\<close>, where
  \<^verbatim>\<open>imageMetadata\<close> is the address allocated a few lines above.
\<close>

definition append_Partition :: "addr \<Rightarrow> pointer \<Rightarrow> heap \<Rightarrow> heap" where
  "append_Partition imageMetadata part h =
     h\<lparr>images := (images h)[imageMetadata :=
          (images h ! imageMetadata)
            \<lparr>Partitions := Partitions (images h ! imageMetadata) @ [part]\<rparr>]\<rparr>"

text \<open>
  The loop over the four slots, from \<open>partitionIndex\<close> on. It returns the error of
  the early \<^verbatim>\<open>return nil, errors.Wrap(...)\<close>, or \<open>None\<close> when the loop ran to its end.
\<close>

function read_partitions :: "nat \<Rightarrow> File \<Rightarrow> addr \<Rightarrow> heap \<Rightarrow> error option \<times> heap" where
  "read_partitions partitionIndex imageFile imageMetadata h =
     (if partitionIndex < 4 then
        (case new_PartitionMetadata zero_PartitionMetadata h of
           (metadata, h1) \<Rightarrow>
             (case binary_Read imageFile metadata h1 of
                (Some err, imageFile', h2) \<Rightarrow>
                  (Some (Wrap err ''could not read partition entry''), h2)
              | (None, imageFile', h2) \<Rightarrow>
                  (case new_Partition
                          \<lparr>PartitionMetadata = Some metadata,
                           ImageFile = Some imageMetadata\<rparr> h2 of
                     (part, h3) \<Rightarrow>
                       read_partitions (partitionIndex + 1) imageFile' imageMetadata
                         (append_Partition imageMetadata (Some part) h3))))
      else (None, h))"
  by pat_completeness auto
termination
  by (relation "measure (\<lambda>(partitionIndex, imageFile, imageMetadata, h). 4 - partitionIndex)")
     auto

text \<open>
  The function returns Go's pair \<^verbatim>\<open>(*ImageFileMetadata, error)\<close>, here together with
  the heap after the call. The deferred \<^verbatim>\<open>imageFile.Close()\<close> has no effect on either.
\<close>

definition AnalyzeImageFile ::
  "filesystem \<Rightarrow> heap \<Rightarrow> string \<Rightarrow> (pointer \<times> error option) \<times> heap" where
  "AnalyzeImageFile fs h path =
     (case os_Open fs path of
        Inl err \<Rightarrow> ((None, Some (Wrap err ''could not open image file'')), h)
      | Inr imageFile \<Rightarrow>
          (case File_Seek imageFile MBRPartitionTableOffset of
             Inl err \<Rightarrow> ((None, Some (Wrap err ''could not seek partition table'')), h)
           | Inr (off, imageFile1) \<Rightarrow>
               (case new_ImageFileMetadata
                       \<lparr>SectorSize = 512, Filepath = path, Partitions = []\<rparr> h of
                  (imageMetadata, h1) \<Rightarrow>
                    (case read_partitions 0 imageFile1 imageMetadata h1 of
                       (Some err, h2) \<Rightarrow> ((None, Some err), h2)
                     | (None, h2) \<Rightarrow> ((Some imageMetadata, None), h2)))))"

subsection \<open>Start and Size\<close>

text \<open>
  Both methods read \<^verbatim>\<open>p.FirstSectorLBA\<close> (or \<^verbatim>\<open>p.SectorCount\<close>) through the embedded
  pointer and \<^verbatim>\<open>p.ImageFile.SectorSize\<close> through the back-reference; a \<^verbatim>\<open>nil\<close> on
  the way panics (\<open>None\<close>).
\<close>

definition Start :: "heap \<Rightarrow> pointer \<Rightarrow> uint64 option" where
  "Start h p =
     (case deref (partitions h) p of None \<Rightarrow> None
      | Some part \<Rightarrow>
          (case deref (metas h) (PartitionMetadata part) of None \<Rightarrow> None
           | Some m \<Rightarrow>
               (case deref (images h) (ImageFile part) of None \<Rightarrow> None
                | Some img \<Rightarrow> Some (ucast (FirstSectorLBA m) * ucast (SectorSize img)))))"

definition Size :: "heap \<Rightarrow> pointer \<Rightarrow> uint64 option" where
  "Size h p =
     (case deref (partitions h) p of None \<Rightarrow> None
      | Some part \<Rightarrow>
          (case deref (metas h) (PartitionMetadata part) of None \<Rightarrow> None
           | Some m \<Rightarrow>
               (case deref (images h) (ImageFile part) of None \<Rightarrow> None
                | Some img \<Rightarrow> Some (ucast (SectorCount m) * ucast (SectorSize img)))))"

subsection \<open>Reading a result\<close>

text \<open>
  What a caller sees of a partition \<open>p\<close>: the entry behind its embedded pointer
  (\<^verbatim>\<open>*p.PartitionMetadata\<close>), and of an image the entries of its partitions in
  order. \<open>None\<close> stands for a panic on the way.
\<close>

definition entry_of :: "heap \<Rightarrow> pointer \<Rightarrow> PartitionMetadata option" where
  "entry_of h p =
     (case deref (partitions h) p of None \<Rightarrow> None
      | Some part \<Rightarrow> deref (metas h) (PartitionMetadata part))"

definition table_of :: "heap \<Rightarrow> pointer \<Rightarrow> PartitionMetadata list option" where
  "table_of h a =
     (case deref (images h) a of None \<Rightarrow> None
      | Some img \<Rightarrow> those (map (entry_of h) (Partitions img)))"

text \<open>The 16 bytes of table slot \<open>i\<close> in the bytes of an image.\<close>

definition slot_bytes :: "byte list \<Rightarrow> nat \<Rightarrow> byte list" where
  "slot_bytes bs i = take 16 (drop (446 + 16 * i) bs)"

subsection \<open>The layout table of the specification\<close>

text \<open>
  The number that four bytes denote when read little-endian, and the layout of an
  entry as the specification's table gives it: \<open>layout_entry bs off m\<close> says that the
  fields of \<open>m\<close> are the bytes of \<open>bs\<close> from offset \<open>off\<close> on, each at its entry
  offset. Both are written from the table, not from the decoder.
\<close>

definition le_uint32 :: "byte \<Rightarrow> byte \<Rightarrow> byte \<Rightarrow> byte \<Rightarrow> nat" where
  "le_uint32 b0 b1 b2 b3 = unat b0 + 2 ^ 8 * unat b1 + 2 ^ 16 * unat b2 + 2 ^ 24 * unat b3"

definition layout_entry :: "byte list \<Rightarrow> nat \<Rightarrow> PartitionMetadata \<Rightarrow> bool" where
  "layout_entry bs off m \<longleftrightarrow>
     Status m = bs ! off \<and>
     StartHead m = bs ! (off + 1) \<and>
     StartSector m = bs ! (off + 2) \<and>
     StartCylinder m = bs ! (off + 3) \<and>
     PartitionType m = bs ! (off + 4) \<and>
     EndHead m = bs ! (off + 5) \<and>
     EndSector m = bs ! (off + 6) \<and>
     EndCylinder m = bs ! (off + 7) \<and>
     unat (FirstSectorLBA m) =
       le_uint32 (bs ! (off + 8)) (bs ! (off + 9)) (bs ! (off + 10)) (bs ! (off + 11)) \<and>
     unat (SectorCount m) =
       le_uint32 (bs ! (off + 12)) (bs ! (off + 13)) (bs ! (off + 14)) (bs ! (off + 15))"

text \<open>
  Re-encoding, as the specification words it: each field written back at its entry
  offset, the two \<^verbatim>\<open>uint32\<close> little-endian (\<^verbatim>\<open>binary.LittleEndian.PutUint32\<close>).
  The repository has no encoder; these two definitions follow the specification.
\<close>

definition PutUint32 :: "uint32 \<Rightarrow> byte list" where
  "PutUint32 v = [ucast v, ucast (drop_bit 8 v), ucast (drop_bit 16 v), ucast (drop_bit 24 v)]"

definition encode_PartitionMetadata :: "PartitionMetadata \<Rightarrow> byte list" where
  "encode_PartitionMetadata m =
     [Status m, StartHead m, StartSector m, StartCylinder m,
      PartitionType m, EndHead m, EndSector m, EndCylinder m] @
     PutUint32 (FirstSectorLBA m) @ PutUint32 (SectorCount m)"

text \<open>
  The error kinds of the specification, read off the errors the code builds: the kind is
  the message that \<^verbatim>\<open>errors.Wrap\<close> added.
\<close>

definition is_OpenFailed :: "error \<Rightarrow> bool" where
  "is_OpenFailed e \<longleftrightarrow> error_message e = ''could not open image file''"

definition is_SeekFailed :: "error \<Rightarrow> bool" where
  "is_SeekFailed e \<longleftrightarrow> error_message e = ''could not seek partition table''"

definition is_DecodeFailed :: "error \<Rightarrow> bool" where
  "is_DecodeFailed e \<longleftrightarrow> error_message e = ''could not read partition entry''"

text \<open>
  In an image of \<open>446 + N\<close> bytes, the first slot whose 16 bytes are not all there.
\<close>

definition first_unread_slot :: "nat \<Rightarrow> nat" where
  "first_unread_slot N = N div 16"

subsection \<open>Concrete inputs\<close>

text \<open>A file system with one file.\<close>

definition single_file :: "string \<Rightarrow> resource \<Rightarrow> filesystem" where
  "single_file name r = (\<lambda>path. if path = name then Some r else None)"

text \<open>
  The 1024-byte image of the specification's end-to-end scenario: one entry with status
  \<open>0x80\<close>, type \<open>0x0B\<close>, first sector 63, in slot 0, every other byte zero.
\<close>

definition scenario_image :: resource where
  "scenario_image =
     \<lparr>contents = replicate 446 0 @
        [0x80, 0x00, 0x01, 0x00, 0x0B, 0x00, 0x00, 0x00,
         0x3F, 0x00, 0x00, 0x00, 0x01, 0xF8, 0x0B, 0x00] @ replicate 562 0,
      seekable = True\<rparr>"

text \<open>A regular file of \<open>n\<close> zero bytes.\<close>

definition zero_file :: "nat \<Rightarrow> resource" where
  "zero_file n = \<lparr>contents = replicate n 0, seekable = True\<rparr>"

text \<open>
  A second image with the same 64 table bytes and different bytes everywhere else, and a
  heap holding one partition with the largest field values.
\<close>

definition other_image :: resource where
  "other_image =
     \<lparr>contents = replicate 446 0xFF @
        [0x80, 0x00, 0x01, 0x00, 0x0B, 0x00, 0x00, 0x00,
         0x3F, 0x00, 0x00, 0x00, 0x01, 0xF8, 0x0B, 0x00] @ replicate 48 0 @ replicate 7 0xAA,
      seekable = True\<rparr>"

definition extreme_heap :: heap where
  "extreme_heap =
     \<lparr>images = [\<lparr>SectorSize = 0xFFFF, Filepath = ''disk.img'', Partitions = [Some 0]\<rparr>],
      partitions = [\<lparr>PartitionMetadata = Some 0, ImageFile = Some 0\<rparr>],
      metas = [zero_PartitionMetadata\<lparr>FirstSectorLBA := 0xFFFFFFFF, SectorCount := 0xFFFFFFFF\<rparr>]\<rparr>"

section \<open>The loop and the outcomes of a call\<close>

text \<open>
  The loop is unfolded one slot at a time: a slot whose 16 bytes are there is read and
  appended, a slot that is cut short ends the call. From these follow the result of a call
  on every kind of input.
\<close>

declare read_partitions.simps [simp del]

lemma read_partitions_done: "\<not> partitionIndex < 4 \<Longrightarrow> read_partitions partitionIndex f a h = (None, h)"
  by (simp add: read_partitions.simps)

lemma read_partitions_ok:
  assumes "partitionIndex < 4" and "pos f + 16 \<le> length (contents (res f))"
  shows "read_partitions partitionIndex f a h =
     read_partitions (Suc partitionIndex) (f\<lparr>pos := pos f + 16\<rparr>) a
       (append_Partition a (Some (length (partitions h)))
          (h\<lparr>metas := metas h @
                 [decode_PartitionMetadata (take 16 (drop (pos f) (contents (res f))))],
             partitions := partitions h @
                 [\<lparr>PartitionMetadata = Some (length (metas h)), ImageFile = Some a\<rparr>]\<rparr>))"
proof -
  have "16 \<le> length (contents (res f)) - pos f" using assms by arith
  with assms show ?thesis
  by (subst read_partitions.simps)
     (simp add: new_PartitionMetadata_def binary_Read_def io_ReadFull_def
        dataSize_PartitionMetadata_def new_Partition_def append_Partition_def Let_def)
qed

lemma read_partitions_short:
  assumes "partitionIndex < 4" and "length (contents (res f)) < pos f + 16"
  shows "read_partitions partitionIndex f a h =
     (Some (Wrap (if length (contents (res f)) \<le> pos f then EOF else ErrUnexpectedEOF)
              ''could not read partition entry''),
      h\<lparr>metas := metas h @ [zero_PartitionMetadata]\<rparr>)"
proof -
  have "\<not> 16 \<le> length (contents (res f)) - pos f" using assms by arith
  with assms show ?thesis
  by (subst read_partitions.simps)
     (simp add: new_PartitionMetadata_def binary_Read_def io_ReadFull_def
        dataSize_PartitionMetadata_def Let_def)
qed

lemma AnalyzeImageFile_ok:
  assumes "fs path = Some r" and "seekable r" and "510 \<le> length (contents r)"
  shows "AnalyzeImageFile fs h path =
    ((Some (length (images h)), None),
     h\<lparr>images := images h @
         [\<lparr>SectorSize = 512, Filepath = path,
           Partitions = map (\<lambda>i. Some (length (partitions h) + i)) [0, 1, 2, 3]\<rparr>],
       partitions := partitions h @
         map (\<lambda>i. \<lparr>PartitionMetadata = Some (length (metas h) + i),
                    ImageFile = Some (length (images h))\<rparr>) [0, 1, 2, 3],
       metas := metas h @
         map (\<lambda>i. decode_PartitionMetadata (slot_bytes (contents r) i)) [0, 1, 2, 3]\<rparr>)"
  using assms
  by (simp add: AnalyzeImageFile_def os_Open_def File_Seek_def MBRPartitionTableOffset_def
       new_ImageFileMetadata_def read_partitions_ok read_partitions_done
       append_Partition_def slot_bytes_def)

lemma AnalyzeImageFile_open_failed:
  assumes "fs path = None"
  shows "AnalyzeImageFile fs h path = ((None, Some (Wrap ENOENT ''could not open image file'')), h)"
  using assms by (simp add: AnalyzeImageFile_def os_Open_def)

lemma AnalyzeImageFile_seek_failed:
  assumes "fs path = Some r" and "\<not> seekable r"
  shows "AnalyzeImageFile fs h path = ((None, Some (Wrap ESPIPE ''could not seek partition table'')), h)"
  using assms by (simp add: AnalyzeImageFile_def os_Open_def File_Seek_def)

lemma AnalyzeImageFile_short:
  assumes "fs path = Some r" and "seekable r" and "length (contents r) < 510"
  shows "fst (AnalyzeImageFile fs h path) =
    (None, Some (Wrap (if length (contents r) \<le> 446 \<or> (length (contents r) - 446) mod 16 = 0
                       then EOF else ErrUnexpectedEOF)
                   ''could not read partition entry''))"
proof -
  let ?n = "length (contents r)"
  consider "?n < 462" | "462 \<le> ?n" "?n < 478" | "478 \<le> ?n" "?n < 494" | "494 \<le> ?n" "?n < 510"
    using assms(3) by linarith
  then show ?thesis
  proof cases
    case 1
    then have "(?n \<le> 446 \<or> (?n - 446) mod 16 = 0) = (?n \<le> 446)"
      by presburger
    with 1 assms show ?thesis
      by (simp add: AnalyzeImageFile_def os_Open_def File_Seek_def MBRPartitionTableOffset_def
       new_ImageFileMetadata_def read_partitions_short)
  next
    case 2
    then have "(?n \<le> 446 \<or> (?n - 446) mod 16 = 0) = (?n \<le> 462)"
      by presburger
    with 2 assms show ?thesis
      by (simp add: AnalyzeImageFile_def os_Open_def File_Seek_def MBRPartitionTableOffset_def
       new_ImageFileMetadata_def read_partitions_short read_partitions_ok)
  next
    case 3
    then have "(?n \<le> 446 \<or> (?n - 446) mod 16 = 0) = (?n \<le> 478)"
      by presburger
    with 3 assms show ?thesis
      by (simp add: AnalyzeImageFile_def os_Open_def File_Seek_def MBRPartitionTableOffset_def
       new_ImageFileMetadata_def read_partitions_short read_partitions_ok)
  next
    case 4
    then have "(?n \<le> 446 \<or> (?n - 446) mod 16 = 0) = (?n \<le> 494)"
      by presburger
    with 4 assms show ?thesis
      by (simp add: AnalyzeImageFile_def os_Open_def File_Seek_def MBRPartitionTableOffset_def
       new_ImageFileMetadata_def read_partitions_short read_partitions_ok)
  qed
qed

lemma AnalyzeImageFile_short_result:
  assumes "fs path = Some r" and "seekable r" and "length (contents r) < 510"
  shows "\<exists>h'. AnalyzeImageFile fs h path =
    ((None, Some (Wrap (if length (contents r) \<le> 446 \<or> (length (contents r) - 446) mod 16 = 0
                       then EOF else ErrUnexpectedEOF)
                   ''could not read partition entry'')), h')"
proof -
  from AnalyzeImageFile_short [of fs path r h, OF assms]
  show ?thesis by (metis prod.collapse)
qed

lemma less_4_cases: "i < 4 \<Longrightarrow> i = 0 \<or> i = 1 \<or> i = 2 \<or> i = (3::nat)"
  by arith

lemma AnalyzeImageFile_success:
  assumes "fs path = Some r" and "seekable r" and "510 \<le> length (contents r)"
  shows "\<exists>h' img. AnalyzeImageFile fs h path = ((Some (length (images h)), None), h') \<and>
    deref (images h') (Some (length (images h))) = Some img \<and>
    SectorSize img = 512 \<and> Filepath img = path \<and> length (Partitions img) = 4 \<and>
    (\<forall>i<4. Partitions img ! i = Some (length (partitions h) + i)) \<and>
    (\<forall>i<4. deref (partitions h') (Some (length (partitions h) + i)) =
        Some \<lparr>PartitionMetadata = Some (length (metas h) + i),
              ImageFile = Some (length (images h))\<rparr>) \<and>
    (\<forall>i<4. deref (metas h') (Some (length (metas h) + i)) =
        Some (decode_PartitionMetadata (slot_bytes (contents r) i)))"
proof -
  let ?img = "\<lparr>SectorSize = 512, Filepath = path,
           Partitions = map (\<lambda>i. Some (length (partitions h) + i)) [0, 1, 2, 3]\<rparr>"
  let ?h' = "h\<lparr>images := images h @ [?img],
       partitions := partitions h @
         map (\<lambda>i. \<lparr>PartitionMetadata = Some (length (metas h) + i),
                    ImageFile = Some (length (images h))\<rparr>) [0, 1, 2, 3],
       metas := metas h @
         map (\<lambda>i. decode_PartitionMetadata (slot_bytes (contents r) i)) [0, 1, 2, 3]\<rparr>"
  have "AnalyzeImageFile fs h path = ((Some (length (images h)), None), ?h')"
    using assms by (rule AnalyzeImageFile_ok)
  moreover have "deref (images ?h') (Some (length (images h))) = Some ?img"
    by (simp add: deref_def)
  moreover have "SectorSize ?img = 512" and "Filepath ?img = path"
    and "length (Partitions ?img) = 4"
    by simp_all
  moreover have "Partitions ?img ! i = Some (length (partitions h) + i)" if "i < 4" for i
    using less_4_cases [OF that] by auto
  moreover have "deref (partitions ?h') (Some (length (partitions h) + i)) =
        Some \<lparr>PartitionMetadata = Some (length (metas h) + i),
              ImageFile = Some (length (images h))\<rparr>" if "i < 4" for i
    using less_4_cases [OF that] by (auto simp: deref_def)
  moreover have "deref (metas ?h') (Some (length (metas h) + i)) =
        Some (decode_PartitionMetadata (slot_bytes (contents r) i))" if "i < 4" for i
    using less_4_cases [OF that] by (auto simp: deref_def)
  ultimately show ?thesis by blast
qed

lemma AnalyzeImageFile_success_inv:
  assumes "fst (fst (AnalyzeImageFile fs h path)) = Some a"
  shows "\<exists>r. fs path = Some r \<and> seekable r \<and> 510 \<le> length (contents r)"
proof (cases "fs path")
  case None
  with assms show ?thesis by (simp add: AnalyzeImageFile_open_failed)
next
  case (Some r)
  show ?thesis
  proof (cases "seekable r")
    case False
    with Some assms show ?thesis by (simp add: AnalyzeImageFile_seek_failed)
  next
    case True
    show ?thesis
    proof (cases "length (contents r) < 510")
      case short: True
      from AnalyzeImageFile_short [of fs path r h, OF Some True short] assms
      show ?thesis by simp
    next
      case False
      with Some True show ?thesis by simp
    qed
  qed
qed

lemma AnalyzeImageFile_result:
  assumes "AnalyzeImageFile fs h path = ((Some a, None), h')"
  shows "\<exists>r img. fs path = Some r \<and> seekable r \<and> 510 \<le> length (contents r) \<and>
    a = length (images h) \<and>
    deref (images h') (Some a) = Some img \<and>
    SectorSize img = 512 \<and> Filepath img = path \<and> length (Partitions img) = 4 \<and>
    (\<forall>i<4. Partitions img ! i = Some (length (partitions h) + i)) \<and>
    (\<forall>i<4. deref (partitions h') (Some (length (partitions h) + i)) =
        Some \<lparr>PartitionMetadata = Some (length (metas h) + i), ImageFile = Some a\<rparr>) \<and>
    (\<forall>i<4. deref (metas h') (Some (length (metas h) + i)) =
        Some (decode_PartitionMetadata (slot_bytes (contents r) i)))"
proof -
  from assms have "fst (fst (AnalyzeImageFile fs h path)) = Some a" by simp
  then obtain r where r: "fs path = Some r" "seekable r" "510 \<le> length (contents r)"
    using AnalyzeImageFile_success_inv [of fs h path a] by blast
  from AnalyzeImageFile_success [of fs path r h, OF r] assms r
  show ?thesis by auto
qed

lemma single_file_same: "single_file name r name = Some r"
  by (simp add: single_file_def)

section \<open>Little-endian decoding\<close>

text \<open>
  The four bytes of a \<^verbatim>\<open>uint32\<close> do not overlap, so joining them with \<open>OR\<close> adds
  them; writing the bytes of the number back gives the same four bytes.
\<close>

lemma or_bytes_eq_add:
  "(ucast (b0::byte) OR push_bit 8 (ucast (b1::byte)) OR push_bit 16 (ucast (b2::byte)) OR
      push_bit 24 (ucast (b3::byte)) :: uint32)
   = ucast b0 + (push_bit 8 (ucast b1) + (push_bit 16 (ucast b2) + push_bit 24 (ucast b3)))"
proof -
  have "(push_bit 16 (ucast b2) :: uint32) OR push_bit 24 (ucast b3) =
        push_bit 16 (ucast b2) + push_bit 24 (ucast b3)"
    by (rule disjunctive_add [symmetric]) (auto simp: bit_simps dest: bit_imp_le_length)
  moreover have "(push_bit 8 (ucast b1) :: uint32) OR (push_bit 16 (ucast b2) OR push_bit 24 (ucast b3)) =
        push_bit 8 (ucast b1) + (push_bit 16 (ucast b2) OR push_bit 24 (ucast b3))"
    by (rule disjunctive_add [symmetric]) (auto simp: bit_simps dest: bit_imp_le_length)
  moreover have "(ucast b0 :: uint32) OR
          (push_bit 8 (ucast b1) OR (push_bit 16 (ucast b2) OR push_bit 24 (ucast b3))) =
        ucast b0 + (push_bit 8 (ucast b1) OR (push_bit 16 (ucast b2) OR push_bit 24 (ucast b3)))"
    by (rule disjunctive_add [symmetric]) (auto simp: bit_simps dest: bit_imp_le_length)
  ultimately show ?thesis by (simp add: or.assoc)
qed

lemma unat_LittleEndian_Uint32:
  "unat (LittleEndian_Uint32 b) = le_uint32 (b ! 0) (b ! 1) (b ! 2) (b ! 3)"
proof -
  let ?n = "unat (b ! 0) + 256 * unat (b ! 1) + 65536 * unat (b ! 2) + 16777216 * unat (b ! 3)"
  have bound: "unat (b ! 0) < 256" "unat (b ! 1) < 256" "unat (b ! 2) < 256" "unat (b ! 3) < 256"
    using unsigned_less [of "b ! 0"] unsigned_less [of "b ! 1"]
      unsigned_less [of "b ! 2"] unsigned_less [of "b ! 3"] by simp_all
  have "LittleEndian_Uint32 b =
      ucast (b ! 0) + (push_bit 8 (ucast (b ! 1)) +
        (push_bit 16 (ucast (b ! 2)) + push_bit 24 (ucast (b ! 3))))"
    by (simp only: LittleEndian_Uint32_def or_bytes_eq_add)
  also have "\<dots> = of_nat ?n"
    by (simp add: push_bit_eq_mult)
  finally have "LittleEndian_Uint32 b = of_nat ?n" .
  then have "unat (LittleEndian_Uint32 b) = ?n mod 2 ^ 32"
    by (simp only: unat_of_nat) simp
  with bound show ?thesis by (simp add: le_uint32_def)
qed

lemma decode_layout_entry:
  assumes "off + 16 \<le> length bs"
  shows "layout_entry bs off (decode_PartitionMetadata (take 16 (drop off bs)))"
  using assms
  by (simp add: layout_entry_def decode_PartitionMetadata_def unat_LittleEndian_Uint32
        add.commute)

lemma decode_zero: "decode_PartitionMetadata (replicate 16 0) = zero_PartitionMetadata"
  by (simp add: decode_PartitionMetadata_def zero_PartitionMetadata_def LittleEndian_Uint32_def)

lemma PutUint32_LittleEndian_Uint32:
  "PutUint32 (LittleEndian_Uint32 b) = [b ! 0, b ! 1, b ! 2, b ! 3]"
proof -
  let ?v = "LittleEndian_Uint32 b"
  have "ucast ?v = b ! 0"
    unfolding LittleEndian_Uint32_def
    by (rule bit_word_eqI) (auto simp: bit_simps dest: bit_imp_le_length)
  moreover have "ucast (drop_bit 8 ?v) = b ! 1"
    unfolding LittleEndian_Uint32_def
    by (rule bit_word_eqI) (auto simp: bit_simps dest: bit_imp_le_length)
  moreover have "ucast (drop_bit 16 ?v) = b ! 2"
    unfolding LittleEndian_Uint32_def
    by (rule bit_word_eqI) (auto simp: bit_simps dest: bit_imp_le_length)
  moreover have "ucast (drop_bit 24 ?v) = b ! 3"
    unfolding LittleEndian_Uint32_def
    by (rule bit_word_eqI) (auto simp: bit_simps dest: bit_imp_le_length)
  ultimately show ?thesis by (simp add: PutUint32_def)
qed

lemma list16:
  assumes "length buf = 16"
  shows "buf = [buf ! 0, buf ! 1, buf ! 2, buf ! 3, buf ! 4, buf ! 5, buf ! 6, buf ! 7,
    buf ! 8, buf ! 9, buf ! 10, buf ! 11, buf ! 12, buf ! 13, buf ! 14, buf ! 15]"
proof -
  from assms obtain b0 b1 b2 b3 b4 b5 b6 b7 b8 b9 b10 b11 b12 b13 b14 b15
    where "buf = [b0, b1, b2, b3, b4, b5, b6, b7, b8, b9, b10, b11, b12, b13, b14, b15]"
    by (auto simp: length_Suc_conv eval_nat_numeral)
  then show ?thesis by simp
qed

lemma encode_decode:
  assumes "length buf = 16"
  shows "encode_PartitionMetadata (decode_PartitionMetadata buf) = buf"
proof -
  have "encode_PartitionMetadata (decode_PartitionMetadata buf) =
    [buf ! 0, buf ! 1, buf ! 2, buf ! 3, buf ! 4, buf ! 5, buf ! 6, buf ! 7,
     buf ! 8, buf ! 9, buf ! 10, buf ! 11, buf ! 12, buf ! 13, buf ! 14, buf ! 15]"
    using assms
    by (simp add: encode_PartitionMetadata_def decode_PartitionMetadata_def
          PutUint32_LittleEndian_Uint32)
  with list16 [OF assms] show ?thesis by simp
qed

section \<open>The slots of the table\<close>

text \<open>
  The four slots are consecutive 16-byte pieces of the 64 bytes from offset 446 on.
\<close>

lemma table_chunks:
  assumes "length t = 64"
  shows "take 16 t @ take 16 (drop 16 t) @ take 16 (drop 32 t) @ take 16 (drop 48 t) = t"
proof -
  have "take 16 (drop 48 t) = drop 48 t" using assms by simp
  moreover have "take 16 (drop 32 t) @ drop 48 t = drop 32 t"
    using append_take_drop_id [of 16 "drop 32 t"] by simp
  moreover have "take 16 (drop 16 t) @ drop 32 t = drop 16 t"
    using append_take_drop_id [of 16 "drop 16 t"] by simp
  ultimately show ?thesis by simp
qed

lemma slot_bytes_table:
  assumes "length pre = 446" and "length t = 64" and "i < 4"
  shows "slot_bytes (pre @ t @ suf) i = take 16 (drop (16 * i) t)"
  using assms by (simp add: slot_bytes_def)

lemma slot_bytes_window:
  assumes "i < 4"
  shows "slot_bytes bs i = take 16 (drop (16 * i) (take 64 (drop 446 bs)))"
  using assms by (simp add: slot_bytes_def drop_take add.commute min_def)

lemma table_of_result:
  assumes "AnalyzeImageFile fs h path = ((Some a, None), h')" and "fs path = Some r"
  shows "table_of h' (Some a) =
    Some [decode_PartitionMetadata (slot_bytes (contents r) 0),
          decode_PartitionMetadata (slot_bytes (contents r) 1),
          decode_PartitionMetadata (slot_bytes (contents r) 2),
          decode_PartitionMetadata (slot_bytes (contents r) 3)]"
proof -
  from AnalyzeImageFile_result [OF assms(1)] assms(2)
  obtain img where img: "deref (images h') (Some a) = Some img"
    and len: "length (Partitions img) = 4"
    and slot: "\<forall>i<4. Partitions img ! i = Some (length (partitions h) + i)"
    and parts: "\<forall>i<4. deref (partitions h') (Some (length (partitions h) + i)) =
        Some \<lparr>PartitionMetadata = Some (length (metas h) + i), ImageFile = Some a\<rparr>"
    and ms: "\<forall>i<4. deref (metas h') (Some (length (metas h) + i)) =
        Some (decode_PartitionMetadata (slot_bytes (contents r) i))"
    by auto
  have e: "entry_of h' (Partitions img ! i) =
      Some (decode_PartitionMetadata (slot_bytes (contents r) i))" if "i < 4" for i
    using that slot parts ms by (simp add: entry_of_def)
  from len obtain p0 p1 p2 p3 where ps: "Partitions img = [p0, p1, p2, p3]"
    by (auto simp: length_Suc_conv eval_nat_numeral)
  from e [of 0] e [of 1] e [of 2] e [of 3] ps
  show ?thesis by (simp add: table_of_def img)
qed

section \<open>Start and Size\<close>

text \<open>
  A 32-bit number times a 16-bit number fits in 64 bits.
\<close>

lemma unat_mul_uint64:
  "unat (ucast (a :: uint32) * ucast (b :: uint16) :: uint64) = unat a * unat b"
proof -
  have a: "unat a < 2 ^ 32" using unsigned_less [of a] by simp
  have b: "unat b < 2 ^ 16" using unsigned_less [of b] by simp
  have "unat a * unat b < 2 ^ 32 * 2 ^ 16"
    using a b by (rule mult_strict_mono) simp_all
  then have "unat a * unat b < 2 ^ 64" by simp
  moreover have "unat (ucast a :: uint64) = unat a" and "unat (ucast b :: uint64) = unat b"
    using a b by (simp_all add: unsigned_ucast_eq take_bit_nat_eq_self)
  ultimately show ?thesis
    using unat_mult_lem [of "ucast a :: uint64" "ucast b"] by simp
qed

section \<open>The claims\<close>

subsection \<open>C1\<close>

text \<open>
  C1. For every image file from which the bytes at offsets 446 through 509 can be read
  (a file that can be positioned and has at least 510 bytes), \<^verbatim>\<open>AnalyzeImageFile\<close>
  succeeds and returns an \<^verbatim>\<open>ImageFileMetadata\<close> with four partitions, and the entry of
  the partition in slot \<open>i\<close> (\<open>0 \<le> i \<le> 3\<close>) is the one the layout table reads from the
  16 bytes at offset \<open>446 + 16 * i\<close>: the eight single-byte fields at entry offsets 0 to 7,
  \<^verbatim>\<open>FirstSectorLBA\<close> the little-endian number at entry offsets 8 to 11 and
  \<^verbatim>\<open>SectorCount\<close> the one at entry offsets 12 to 15, with the slots in table order.
\<close>

theorem C1_table_decoded:
  assumes "fs path = Some r" and "seekable r" and "510 \<le> length (contents r)"
  shows "\<exists>a h' img. AnalyzeImageFile fs h path = ((Some a, None), h') \<and>
    deref (images h') (Some a) = Some img \<and> length (Partitions img) = 4 \<and>
    (\<forall>i<4. \<exists>m. entry_of h' (Partitions img ! i) = Some m \<and>
       layout_entry (contents r) (446 + 16 * i) m)"
proof -
  from AnalyzeImageFile_success [of fs path r h, OF assms]
  obtain h' img where res: "AnalyzeImageFile fs h path = ((Some (length (images h)), None), h')"
    and img: "deref (images h') (Some (length (images h))) = Some img"
    and len: "length (Partitions img) = 4"
    and slot: "\<And>i. i < 4 \<Longrightarrow> Partitions img ! i = Some (length (partitions h) + i)"
    and parts: "\<And>i. i < 4 \<Longrightarrow> deref (partitions h') (Some (length (partitions h) + i)) =
        Some \<lparr>PartitionMetadata = Some (length (metas h) + i),
              ImageFile = Some (length (images h))\<rparr>"
    and ms: "\<And>i. i < 4 \<Longrightarrow> deref (metas h') (Some (length (metas h) + i)) =
        Some (decode_PartitionMetadata (slot_bytes (contents r) i))"
    by blast
  have "\<exists>m. entry_of h' (Partitions img ! i) = Some m \<and>
       layout_entry (contents r) (446 + 16 * i) m" if "i < 4" for i
  proof -
    have "446 + 16 * i + 16 \<le> length (contents r)"
      using that assms(3) by arith
    then have "layout_entry (contents r) (446 + 16 * i)
        (decode_PartitionMetadata (slot_bytes (contents r) i))"
      unfolding slot_bytes_def by (rule decode_layout_entry)
    then show ?thesis
      by (simp add: entry_of_def slot [OF that] parts [OF that] ms [OF that])
  qed
  with res img len show ?thesis by blast
qed

text \<open>
  On the scenario image the entry in slot 0 has status \<open>0x80\<close>, type \<open>0x0B\<close>, first
  sector 63 and \<open>0x0BF801 = 784385\<close> sectors.
\<close>

theorem C1_table_decoded_witness:
  "\<exists>a h' img m.
     AnalyzeImageFile (single_file ''disk.img'' scenario_image) empty_heap ''disk.img'' =
       ((Some a, None), h') \<and>
     deref (images h') (Some a) = Some img \<and>
     entry_of h' (Partitions img ! 0) = Some m \<and>
     Status m = 0x80 \<and> PartitionType m = 0x0B \<and>
     unat (FirstSectorLBA m) = 63 \<and> unat (SectorCount m) = 784385"
proof -
  have "single_file ''disk.img'' scenario_image ''disk.img'' = Some scenario_image"
    by (simp add: single_file_def)
  moreover have "seekable scenario_image" and "510 \<le> length (contents scenario_image)"
    by (simp_all add: scenario_image_def)
  ultimately obtain a h' img
    where res: "AnalyzeImageFile (single_file ''disk.img'' scenario_image) empty_heap ''disk.img'' =
       ((Some a, None), h')"
      and img: "deref (images h') (Some a) = Some img"
      and slots: "\<forall>i<4. \<exists>m. entry_of h' (Partitions img ! i) = Some m \<and>
         layout_entry (contents scenario_image) (446 + 16 * i) m"
    using C1_table_decoded [of "single_file ''disk.img'' scenario_image" "''disk.img''"
        scenario_image empty_heap]
    by blast
  from slots obtain m where m: "entry_of h' (Partitions img ! 0) = Some m"
    and lay: "layout_entry (contents scenario_image) 446 m"
    by force
  from lay have "Status m = 0x80" and "PartitionType m = 0x0B"
    and "unat (FirstSectorLBA m) = 63" and "unat (SectorCount m) = 784385"
    by (simp_all add: layout_entry_def scenario_image_def nth_append le_uint32_def)
  with res img m show ?thesis by blast
qed

subsection \<open>C2\<close>

text \<open>
  C2. For every partition whose two pointers are live (a constructed \<^verbatim>\<open>Partition\<close>),
  \<^verbatim>\<open>Start()\<close> and \<^verbatim>\<open>Size()\<close> return a value, and read as numbers these values are
  exactly \<^verbatim>\<open>FirstSectorLBA\<close> times \<^verbatim>\<open>SectorSize\<close> and \<^verbatim>\<open>SectorCount\<close> times
  \<^verbatim>\<open>SectorSize\<close>: the 64-bit product never wraps, whatever the 32-bit fields and the
  16-bit sector size are. On the all-zero entry both are 0.
\<close>

theorem C2_Start_Size_exact:
  assumes "deref (partitions h) p = Some part"
    and "deref (metas h) (PartitionMetadata part) = Some m"
    and "deref (images h) (ImageFile part) = Some img"
  shows "\<exists>s z. Start h p = Some s \<and> Size h p = Some z \<and>
     unat s = unat (FirstSectorLBA m) * unat (SectorSize img) \<and>
     unat z = unat (SectorCount m) * unat (SectorSize img) \<and>
     (m = zero_PartitionMetadata \<longrightarrow> s = 0 \<and> z = 0)"
  using assms
  by (simp add: Start_def Size_def unat_mul_uint64 zero_PartitionMetadata_def)

text \<open>The largest fields: \<open>2 ^ 32 - 1\<close> sectors of \<open>2 ^ 16 - 1\<close> bytes.\<close>

theorem C2_Start_Size_exact_witness:
  "\<exists>s z. Start extreme_heap (Some 0) = Some s \<and> Size extreme_heap (Some 0) = Some z \<and>
     unat s = 4294967295 * 65535 \<and> unat z = 4294967295 * 65535"
proof -
  have "deref (partitions extreme_heap) (Some 0) =
      Some \<lparr>PartitionMetadata = Some 0, ImageFile = Some 0\<rparr>"
    by (simp add: extreme_heap_def deref_def)
  moreover have "deref (metas extreme_heap)
        (PartitionMetadata \<lparr>PartitionMetadata = Some 0, ImageFile = Some 0\<rparr>) =
      Some (zero_PartitionMetadata\<lparr>FirstSectorLBA := 0xFFFFFFFF, SectorCount := 0xFFFFFFFF\<rparr>)"
    by (simp add: extreme_heap_def deref_def)
  moreover have "deref (images extreme_heap)
        (ImageFile \<lparr>PartitionMetadata = Some 0, ImageFile = Some 0\<rparr>) =
      Some \<lparr>SectorSize = 0xFFFF, Filepath = ''disk.img'', Partitions = [Some 0]\<rparr>"
    by (simp add: extreme_heap_def deref_def)
  ultimately show ?thesis
    using C2_Start_Size_exact [of extreme_heap "Some 0"
        "\<lparr>PartitionMetadata = Some 0, ImageFile = Some 0\<rparr>"
        "zero_PartitionMetadata\<lparr>FirstSectorLBA := 0xFFFFFFFF, SectorCount := 0xFFFFFFFF\<rparr>"
        "\<lparr>SectorSize = 0xFFFF, Filepath = ''disk.img'', Partitions = [Some 0]\<rparr>"]
    by (simp add: zero_PartitionMetadata_def)
qed

subsection \<open>C3\<close>

text \<open>
  C3. For every path, file system and heap, \<^verbatim>\<open>AnalyzeImageFile\<close> either returns
  \<^verbatim>\<open>nil\<close> together with an error (of one of the three kinds), or returns no error and
  a pointer to an \<^verbatim>\<open>ImageFileMetadata\<close> whose \<^verbatim>\<open>Partitions\<close> has length exactly 4. No
  other outcome exists: a result with fewer than four partitions is never returned.
\<close>

theorem C3_all_or_nothing:
  "(\<exists>e h'. AnalyzeImageFile fs h path = ((None, Some e), h') \<and>
      (is_OpenFailed e \<or> is_SeekFailed e \<or> is_DecodeFailed e)) \<or>
   (\<exists>a h' img. AnalyzeImageFile fs h path = ((Some a, None), h') \<and>
      deref (images h') (Some a) = Some img \<and> length (Partitions img) = 4)"
proof (cases "fs path")
  case None
  then show ?thesis by (simp add: AnalyzeImageFile_open_failed is_OpenFailed_def)
next
  case (Some r)
  show ?thesis
  proof (cases "seekable r")
    case False
    with Some show ?thesis by (simp add: AnalyzeImageFile_seek_failed is_SeekFailed_def)
  next
    case True
    show ?thesis
    proof (cases "length (contents r) < 510")
      case short: True
      from AnalyzeImageFile_short_result [of fs path r h, OF Some True short]
      obtain c h' where
        "AnalyzeImageFile fs h path = ((None, Some (Wrap c ''could not read partition entry'')), h')"
        by blast
      moreover have "is_DecodeFailed (Wrap c ''could not read partition entry'')"
        by (simp add: is_DecodeFailed_def)
      ultimately show ?thesis by blast
    next
      case False
      then have "510 \<le> length (contents r)" by simp
      from AnalyzeImageFile_success [of fs path r h, OF Some True this]
      show ?thesis by blast
    qed
  qed
qed

subsection \<open>C4\<close>

text \<open>
  C4 as stated does not hold. Seeking to offset 446 of a regular file of 100 bytes
  succeeds, so the call does not end at the seek: the first read finds no byte and the
  call fails with \<^verbatim>\<open>io.EOF\<close> wrapped as "could not read partition entry".
\<close>

theorem C4_counterexample:
  "length (contents (zero_file 100)) = 100 \<and>
   fst (AnalyzeImageFile (single_file ''disk.img'' (zero_file 100)) empty_heap ''disk.img'') =
     (None, Some (Wrap EOF ''could not read partition entry'')) \<and>
   \<not> is_SeekFailed (Wrap EOF ''could not read partition entry'')"
proof -
  have "seekable (zero_file 100)" and len: "length (contents (zero_file 100)) = 100"
    by (simp_all add: zero_file_def)
  then have "fst (AnalyzeImageFile (single_file ''disk.img'' (zero_file 100)) empty_heap ''disk.img'') =
     (None, Some (Wrap EOF ''could not read partition entry''))"
    using AnalyzeImageFile_short [of "single_file ''disk.img'' (zero_file 100)" "''disk.img''"
        "zero_file 100" empty_heap]
    by (simp add: single_file_same)
  with len show ?thesis by (simp add: is_SeekFailed_def)
qed

text \<open>
  C4, amended. For every openable image file that can be positioned and whose length is
  strictly less than 446 bytes, \<^verbatim>\<open>AnalyzeImageFile\<close> fails with the read error
  ("could not read partition entry", wrapping \<^verbatim>\<open>io.EOF\<close>), not with the seek error, and
  no \<^verbatim>\<open>ImageFileMetadata\<close> is returned.
\<close>

theorem C4_short_file_fails_reading:
  assumes "fs path = Some r" and "seekable r" and "length (contents r) < 446"
  shows "\<exists>e h'. AnalyzeImageFile fs h path = ((None, Some e), h') \<and>
    e = Wrap EOF ''could not read partition entry'' \<and>
    is_DecodeFailed e \<and> \<not> is_SeekFailed e"
proof -
  from assms(3) have "length (contents r) < 510" by simp
  from AnalyzeImageFile_short_result [of fs path r h, OF assms(1,2) this] assms(3)
  show ?thesis by (auto simp: is_DecodeFailed_def is_SeekFailed_def)
qed

theorem C4_short_file_fails_reading_witness:
  "\<exists>h'. AnalyzeImageFile (single_file ''disk.img'' (zero_file 445)) empty_heap ''disk.img'' =
     ((None, Some (Wrap EOF ''could not read partition entry'')), h')"
  using C4_short_file_fails_reading [of "single_file ''disk.img'' (zero_file 445)" "''disk.img''"
      "zero_file 445" empty_heap]
  by (simp add: single_file_same zero_file_def)

subsection \<open>C5\<close>

text \<open>
  C5 as stated does not hold. On a regular file of exactly 446 bytes the seek to offset
  446 succeeds and the read of slot 0 fails: the error is of the decode (read) kind and
  not of the seek kind.
\<close>

theorem C5_counterexample:
  "length (contents (zero_file 446)) = 446 \<and>
   fst (AnalyzeImageFile (single_file ''disk.img'' (zero_file 446)) empty_heap ''disk.img'') =
     (None, Some (Wrap EOF ''could not read partition entry'')) \<and>
   is_DecodeFailed (Wrap EOF ''could not read partition entry'') \<and>
   \<not> is_SeekFailed (Wrap EOF ''could not read partition entry'')"
proof -
  have "seekable (zero_file 446)" and len: "length (contents (zero_file 446)) = 446"
    by (simp_all add: zero_file_def)
  then have "fst (AnalyzeImageFile (single_file ''disk.img'' (zero_file 446)) empty_heap ''disk.img'') =
     (None, Some (Wrap EOF ''could not read partition entry''))"
    using AnalyzeImageFile_short [of "single_file ''disk.img'' (zero_file 446)" "''disk.img''"
        "zero_file 446" empty_heap]
    by (simp add: single_file_same)
  with len show ?thesis by (simp add: is_SeekFailed_def is_DecodeFailed_def)
qed

text \<open>
  C5, amended. For an image file of exactly 446 bytes that can be positioned,
  \<^verbatim>\<open>AnalyzeImageFile\<close> fails with an error of the decode (read) kind, caused by
  \<^verbatim>\<open>io.EOF\<close>, and not with one of the seek kind; no \<^verbatim>\<open>ImageFileMetadata\<close> is returned.
\<close>

theorem C5_table_absent_fails_reading:
  assumes "fs path = Some r" and "seekable r" and "length (contents r) = 446"
  shows "\<exists>e h'. AnalyzeImageFile fs h path = ((None, Some e), h') \<and>
    is_DecodeFailed e \<and> error_cause e = EOF \<and> \<not> is_SeekFailed e"
proof -
  from assms(3) have "length (contents r) < 510" by simp
  from AnalyzeImageFile_short_result [of fs path r h, OF assms(1,2) this] assms(3)
  show ?thesis by (auto simp: is_DecodeFailed_def is_SeekFailed_def)
qed

theorem C5_table_absent_fails_reading_witness:
  "\<exists>e h'. AnalyzeImageFile (single_file ''disk.img'' (zero_file 446)) empty_heap ''disk.img'' =
     ((None, Some e), h') \<and> is_DecodeFailed e \<and> error_cause e = EOF \<and> \<not> is_SeekFailed e"
  using C5_table_absent_fails_reading [of "single_file ''disk.img'' (zero_file 446)" "''disk.img''"
      "zero_file 446" empty_heap]
  by (simp add: single_file_same zero_file_def)

subsection \<open>C6\<close>

text \<open>
  C6 as stated does not hold: the error carries no slot index. Files of \<open>446 + 0\<close> and
  of \<open>446 + 16\<close> bytes fail with the very same error value, although the first slot that
  cannot be read is slot 0 in the one and slot 1 in the other.
\<close>

theorem C6_counterexample:
  "fst (AnalyzeImageFile (single_file ''disk.img'' (zero_file (446 + 0))) empty_heap ''disk.img'') =
     (None, Some (Wrap EOF ''could not read partition entry'')) \<and>
   fst (AnalyzeImageFile (single_file ''disk.img'' (zero_file (446 + 16))) empty_heap ''disk.img'') =
     (None, Some (Wrap EOF ''could not read partition entry'')) \<and>
   first_unread_slot 0 = 0 \<and> first_unread_slot 16 = 1"
proof -
  have "fst (AnalyzeImageFile (single_file ''disk.img'' (zero_file (446 + 0))) empty_heap ''disk.img'') =
     (None, Some (Wrap EOF ''could not read partition entry''))"
    using AnalyzeImageFile_short [of "single_file ''disk.img'' (zero_file (446 + 0))" "''disk.img''"
        "zero_file (446 + 0)" empty_heap]
    by (simp add: single_file_same zero_file_def)
  moreover have "fst (AnalyzeImageFile (single_file ''disk.img'' (zero_file (446 + 16))) empty_heap ''disk.img'') =
     (None, Some (Wrap EOF ''could not read partition entry''))"
    using AnalyzeImageFile_short [of "single_file ''disk.img'' (zero_file (446 + 16))" "''disk.img''"
        "zero_file (446 + 16)" empty_heap]
    by (simp add: single_file_same zero_file_def)
  ultimately show ?thesis by (simp add: first_unread_slot_def)
qed

text \<open>
  C6, amended. For every openable image file that can be positioned and has exactly
  \<open>446 + N\<close> bytes with \<open>0 \<le> N < 64\<close>, \<^verbatim>\<open>AnalyzeImageFile\<close> fails with the read error
  "could not read partition entry", which wraps \<^verbatim>\<open>io.EOF\<close> when \<open>N\<close> is a multiple of
  16 and \<^verbatim>\<open>io.ErrUnexpectedEOF\<close> otherwise and holds nothing else (no slot index); the
  whole call is aborted and \<^verbatim>\<open>nil\<close> is returned in place of the metadata.
\<close>

theorem C6_truncated_table_fails_reading:
  assumes "fs path = Some r" and "seekable r"
    and "length (contents r) = 446 + N" and "N < 64"
  shows "\<exists>h'. AnalyzeImageFile fs h path =
    ((None, Some (Wrap (if N mod 16 = 0 then EOF else ErrUnexpectedEOF)
                    ''could not read partition entry'')), h')"
proof -
  from assms(3,4) have "length (contents r) < 510" by simp
  from AnalyzeImageFile_short_result [of fs path r h, OF assms(1,2) this] assms(3)
  show ?thesis by (cases "N = 0") simp_all
qed

theorem C6_truncated_table_fails_reading_witness:
  "\<exists>h'. AnalyzeImageFile (single_file ''disk.img'' (zero_file 470)) empty_heap ''disk.img'' =
     ((None, Some (Wrap ErrUnexpectedEOF ''could not read partition entry'')), h')"
  using C6_truncated_table_fails_reading [of "single_file ''disk.img'' (zero_file 470)"
      "''disk.img''" "zero_file 470" 24 empty_heap]
  by (simp add: single_file_same zero_file_def)

subsection \<open>C7\<close>

text \<open>
  C7. For every successful call of \<^verbatim>\<open>AnalyzeImageFile\<close> and every slot \<open>i\<close> whose 16
  bytes are all zero, the partition at position \<open>i\<close> of the result is there (the result
  keeps its four partitions), its entry is the all-zero entry (status, type, first sector
  and sector count are 0), and \<^verbatim>\<open>Start()\<close> and \<^verbatim>\<open>Size()\<close> of it are 0.
\<close>

theorem C7_zero_slot_preserved:
  assumes "fs path = Some r"
    and "AnalyzeImageFile fs h path = ((Some a, None), h')"
    and "i < 4"
    and "slot_bytes (contents r) i = replicate 16 0"
  shows "\<exists>img m. deref (images h') (Some a) = Some img \<and> length (Partitions img) = 4 \<and>
    entry_of h' (Partitions img ! i) = Some m \<and> m = zero_PartitionMetadata \<and>
    Status m = 0 \<and> PartitionType m = 0 \<and> FirstSectorLBA m = 0 \<and> SectorCount m = 0 \<and>
    Start h' (Partitions img ! i) = Some 0 \<and> Size h' (Partitions img ! i) = Some 0"
proof -
  from AnalyzeImageFile_result [OF assms(2)] assms(1)
  obtain img where img: "deref (images h') (Some a) = Some img"
    and len: "length (Partitions img) = 4"
    and slot: "\<And>i. i < 4 \<Longrightarrow> Partitions img ! i = Some (length (partitions h) + i)"
    and parts: "\<And>i. i < 4 \<Longrightarrow> deref (partitions h') (Some (length (partitions h) + i)) =
        Some \<lparr>PartitionMetadata = Some (length (metas h) + i), ImageFile = Some a\<rparr>"
    and ms: "\<And>i. i < 4 \<Longrightarrow> deref (metas h') (Some (length (metas h) + i)) =
        Some (decode_PartitionMetadata (slot_bytes (contents r) i))"
    by auto
  have m: "deref (metas h') (Some (length (metas h) + i)) = Some zero_PartitionMetadata"
    using ms [OF assms(3)] assms(4) by (simp add: decode_zero)
  have "entry_of h' (Partitions img ! i) = Some zero_PartitionMetadata"
    by (simp add: entry_of_def slot [OF assms(3)] parts [OF assms(3)] m)
  moreover have "Start h' (Partitions img ! i) = Some 0"
    and "Size h' (Partitions img ! i) = Some 0"
    by (simp_all add: Start_def Size_def slot [OF assms(3)] parts [OF assms(3)] m img
          zero_PartitionMetadata_def)
  ultimately show ?thesis
    using img len by (simp add: zero_PartitionMetadata_def)
qed

text \<open>Slot 2 of the scenario image is all zero.\<close>

theorem C7_zero_slot_preserved_witness:
  "\<exists>a h' img m.
     AnalyzeImageFile (single_file ''disk.img'' scenario_image) empty_heap ''disk.img'' =
       ((Some a, None), h') \<and>
     deref (images h') (Some a) = Some img \<and>
     entry_of h' (Partitions img ! 2) = Some zero_PartitionMetadata \<and>
     Start h' (Partitions img ! 2) = Some 0 \<and> Size h' (Partitions img ! 2) = Some 0"
proof -
  let ?fs = "single_file ''disk.img'' scenario_image"
  have "seekable scenario_image" and "510 \<le> length (contents scenario_image)"
    by (simp_all add: scenario_image_def)
  with AnalyzeImageFile_success [of ?fs "''disk.img''" scenario_image empty_heap]
  obtain a h' where res: "AnalyzeImageFile ?fs empty_heap ''disk.img'' = ((Some a, None), h')"
    by (auto simp: single_file_same)
  have "slot_bytes (contents scenario_image) 2 = replicate 16 0"
    by (simp add: slot_bytes_def scenario_image_def replicate_add [symmetric])
  with C7_zero_slot_preserved [of ?fs "''disk.img''" scenario_image empty_heap a h' 2] res
  show ?thesis by (auto simp: single_file_same)
qed

subsection \<open>C8\<close>

text \<open>
  C8. For every 64-byte table region \<open>t\<close> at offset 446 of an image file,
  \<^verbatim>\<open>AnalyzeImageFile\<close> decodes four entries, and writing the four entries back in
  order, each field at its entry offset and the two \<^verbatim>\<open>uint32\<close> little-endian, gives the
  64 bytes of \<open>t\<close> again.
\<close>

theorem C8_table_roundtrip:
  assumes "fs path = Some r" and "seekable r"
    and "contents r = pre @ t @ suf" and "length pre = 446" and "length t = 64"
  shows "\<exists>a h' ms. AnalyzeImageFile fs h path = ((Some a, None), h') \<and>
    table_of h' (Some a) = Some ms \<and> length ms = 4 \<and>
    concat (map encode_PartitionMetadata ms) = t"
proof -
  from assms(3-5) have "510 \<le> length (contents r)" by simp
  from AnalyzeImageFile_success [of fs path r h, OF assms(1,2) this]
  obtain a h' where res: "AnalyzeImageFile fs h path = ((Some a, None), h')"
    by blast
  let ?ms = "[decode_PartitionMetadata (slot_bytes (contents r) 0),
          decode_PartitionMetadata (slot_bytes (contents r) 1),
          decode_PartitionMetadata (slot_bytes (contents r) 2),
          decode_PartitionMetadata (slot_bytes (contents r) 3)]"
  have tab: "table_of h' (Some a) = Some ?ms"
    using res assms(1) by (rule table_of_result)
  have "concat (map encode_PartitionMetadata ?ms) =
      take 16 t @ take 16 (drop 16 t) @ take 16 (drop 32 t) @ take 16 (drop 48 t)"
    using assms(4,5) by (simp add: assms(3) slot_bytes_table encode_decode)
  also have "\<dots> = t" using assms(5) by (rule table_chunks)
  finally have "concat (map encode_PartitionMetadata ?ms) = t" .
  with res tab show ?thesis by simp
qed

text \<open>The table of the scenario image: its one entry and 48 zero bytes.\<close>

theorem C8_table_roundtrip_witness:
  "\<exists>a h' ms.
     AnalyzeImageFile (single_file ''disk.img'' scenario_image) empty_heap ''disk.img'' =
       ((Some a, None), h') \<and>
     table_of h' (Some a) = Some ms \<and> length ms = 4 \<and>
     concat (map encode_PartitionMetadata ms) =
       [0x80, 0x00, 0x01, 0x00, 0x0B, 0x00, 0x00, 0x00,
        0x3F, 0x00, 0x00, 0x00, 0x01, 0xF8, 0x0B, 0x00] @ replicate 48 0"
proof -
  have "contents scenario_image = replicate 446 0 @
      ([0x80, 0x00, 0x01, 0x00, 0x0B, 0x00, 0x00, 0x00,
        0x3F, 0x00, 0x00, 0x00, 0x01, 0xF8, 0x0B, 0x00] @ replicate 48 0) @ replicate 514 0"
    by (simp add: scenario_image_def replicate_add [symmetric])
  moreover have "seekable scenario_image" by (simp add: scenario_image_def)
  ultimately show ?thesis
    using C8_table_roundtrip [of "single_file ''disk.img'' scenario_image" "''disk.img''"
        scenario_image "replicate 446 0"
        "[0x80, 0x00, 0x01, 0x00, 0x0B, 0x00, 0x00, 0x00,
          0x3F, 0x00, 0x00, 0x00, 0x01, 0xF8, 0x0B, 0x00] @ replicate 48 0"
        "replicate 514 0" empty_heap]
    by (simp add: single_file_same)
qed

subsection \<open>C9\<close>

text \<open>
  C9. For every \<^verbatim>\<open>ImageFileMetadata\<close> that \<^verbatim>\<open>AnalyzeImageFile\<close> returns without an
  error: its \<^verbatim>\<open>SectorSize\<close> is 512, it has four partitions, and each of them points
  back, through \<^verbatim>\<open>ImageFile\<close>, to the address of that same \<^verbatim>\<open>ImageFileMetadata\<close>;
  so \<^verbatim>\<open>Start()\<close> of each partition is its \<^verbatim>\<open>FirstSectorLBA\<close> times 512 and
  \<^verbatim>\<open>Size()\<close> its \<^verbatim>\<open>SectorCount\<close> times 512.
\<close>

theorem C9_back_reference:
  assumes "AnalyzeImageFile fs h path = ((Some a, None), h')"
  shows "\<exists>img. deref (images h') (Some a) = Some img \<and> SectorSize img = 512 \<and>
    length (Partitions img) = 4 \<and>
    (\<forall>i<4. \<exists>part m s z.
       deref (partitions h') (Partitions img ! i) = Some part \<and>
       ImageFile part = Some a \<and>
       deref (metas h') (PartitionMetadata part) = Some m \<and>
       Start h' (Partitions img ! i) = Some s \<and>
       unat s = unat (FirstSectorLBA m) * 512 \<and>
       Size h' (Partitions img ! i) = Some z \<and>
       unat z = unat (SectorCount m) * 512)"
proof -
  from AnalyzeImageFile_result [OF assms]
  obtain r :: resource and img where img: "deref (images h') (Some a) = Some img"
    and ss: "SectorSize img = 512"
    and len: "length (Partitions img) = 4"
    and slot: "\<forall>i<4. Partitions img ! i = Some (length (partitions h) + i)"
    and parts: "\<forall>i<4. deref (partitions h') (Some (length (partitions h) + i)) =
        Some \<lparr>PartitionMetadata = Some (length (metas h) + i), ImageFile = Some a\<rparr>"
    and ms: "\<forall>i<4. deref (metas h') (Some (length (metas h) + i)) =
        Some (decode_PartitionMetadata (slot_bytes (contents r) i))"
    by blast
  have "\<exists>part m s z.
       deref (partitions h') (Partitions img ! i) = Some part \<and>
       ImageFile part = Some a \<and>
       deref (metas h') (PartitionMetadata part) = Some m \<and>
       Start h' (Partitions img ! i) = Some s \<and>
       unat s = unat (FirstSectorLBA m) * 512 \<and>
       Size h' (Partitions img ! i) = Some z \<and>
       unat z = unat (SectorCount m) * 512" if "i < 4" for i
    using unat_mul_uint64 [of _ "512"] that slot parts ms
    by (simp add: Start_def Size_def img ss)
  with img ss len show ?thesis by blast
qed

text \<open>
  On the scenario image the partition in slot 0 starts at byte \<open>63 * 512\<close> and is
  \<open>784385 * 512\<close> bytes long.
\<close>

theorem C9_back_reference_witness:
  "\<exists>a h' img part s z.
     AnalyzeImageFile (single_file ''disk.img'' scenario_image) empty_heap ''disk.img'' =
       ((Some a, None), h') \<and>
     deref (images h') (Some a) = Some img \<and> SectorSize img = 512 \<and>
     deref (partitions h') (Partitions img ! 0) = Some part \<and> ImageFile part = Some a \<and>
     Start h' (Partitions img ! 0) = Some s \<and> unat s = 63 * 512 \<and>
     Size h' (Partitions img ! 0) = Some z \<and> unat z = 784385 * 512"
proof -
  let ?fs = "single_file ''disk.img'' scenario_image"
  have r: "?fs ''disk.img'' = Some scenario_image" "seekable scenario_image"
    "510 \<le> length (contents scenario_image)"
    by (simp_all add: scenario_image_def single_file_same)
  from AnalyzeImageFile_success [of ?fs "''disk.img''" scenario_image empty_heap, OF r]
  obtain h' img0 where res: "AnalyzeImageFile ?fs empty_heap ''disk.img'' = ((Some 0, None), h')"
    and img0: "deref (images h') (Some 0) = Some img0"
    and slot0: "Partitions img0 ! 0 = Some 0"
    and part0: "deref (partitions h') (Some 0) = Some \<lparr>PartitionMetadata = Some 0, ImageFile = Some 0\<rparr>"
    and m0: "deref (metas h') (Some 0) =
        Some (decode_PartitionMetadata (slot_bytes (contents scenario_image) 0))"
    by (auto simp: empty_heap_def)
  have lba: "unat (FirstSectorLBA (decode_PartitionMetadata (slot_bytes (contents scenario_image) 0))) = 63"
    and cnt: "unat (SectorCount (decode_PartitionMetadata (slot_bytes (contents scenario_image) 0))) = 784385"
    by (simp_all add: decode_PartitionMetadata_def slot_bytes_def scenario_image_def
          unat_LittleEndian_Uint32 le_uint32_def)
  from C9_back_reference [OF res] img0
  have "\<exists>part m s z.
       deref (partitions h') (Partitions img0 ! 0) = Some part \<and>
       ImageFile part = Some 0 \<and>
       deref (metas h') (PartitionMetadata part) = Some m \<and>
       Start h' (Partitions img0 ! 0) = Some s \<and>
       unat s = unat (FirstSectorLBA m) * 512 \<and>
       Size h' (Partitions img0 ! 0) = Some z \<and>
       unat z = unat (SectorCount m) * 512"
    and "SectorSize img0 = 512"
    by auto
  with res img0 slot0 part0 m0 lba cnt show ?thesis
    by auto
qed

subsection \<open>C10\<close>

text \<open>
  C10. Two image files of at least 510 bytes that can be positioned and agree on the 64
  bytes at offsets 446 through 509, analysed under the same path, both succeed and give
  results with the same \<^verbatim>\<open>SectorSize\<close>, the same \<^verbatim>\<open>Filepath\<close> and the same four
  entries, whatever the other bytes of the files and whatever the heaps the calls start
  from; started from the same heap, the two calls return the same pointer and the same
  heap.
\<close>

theorem C10_depends_only_on_table:
  assumes "fs1 path = Some r1" and "fs2 path = Some r2"
    and "seekable r1" and "seekable r2"
    and "510 \<le> length (contents r1)" and "510 \<le> length (contents r2)"
    and "take 64 (drop 446 (contents r1)) = take 64 (drop 446 (contents r2))"
  shows "\<exists>a1 h1' img1 a2 h2' img2 ms.
    AnalyzeImageFile fs1 h1 path = ((Some a1, None), h1') \<and>
    AnalyzeImageFile fs2 h2 path = ((Some a2, None), h2') \<and>
    deref (images h1') (Some a1) = Some img1 \<and>
    deref (images h2') (Some a2) = Some img2 \<and>
    SectorSize img1 = SectorSize img2 \<and> Filepath img1 = Filepath img2 \<and>
    table_of h1' (Some a1) = Some ms \<and> table_of h2' (Some a2) = Some ms \<and>
    (h1 = h2 \<longrightarrow> AnalyzeImageFile fs1 h1 path = AnalyzeImageFile fs2 h2 path)"
proof -
  have same: "slot_bytes (contents r1) i = slot_bytes (contents r2) i" if "i < 4" for i
    using that assms(7) by (simp add: slot_bytes_window)
  from AnalyzeImageFile_success [of fs1 path r1 h1, OF assms(1,3,5)]
  obtain h1' img1 where res1: "AnalyzeImageFile fs1 h1 path = ((Some (length (images h1)), None), h1')"
    and img1: "deref (images h1') (Some (length (images h1))) = Some img1"
    and f1: "SectorSize img1 = 512" "Filepath img1 = path"
    by blast
  from AnalyzeImageFile_success [of fs2 path r2 h2, OF assms(2,4,6)]
  obtain h2' img2 where res2: "AnalyzeImageFile fs2 h2 path = ((Some (length (images h2)), None), h2')"
    and img2: "deref (images h2') (Some (length (images h2))) = Some img2"
    and f2: "SectorSize img2 = 512" "Filepath img2 = path"
    by blast
  let ?ms = "[decode_PartitionMetadata (slot_bytes (contents r1) 0),
          decode_PartitionMetadata (slot_bytes (contents r1) 1),
          decode_PartitionMetadata (slot_bytes (contents r1) 2),
          decode_PartitionMetadata (slot_bytes (contents r1) 3)]"
  have t1: "table_of h1' (Some (length (images h1))) = Some ?ms"
    using res1 assms(1) by (rule table_of_result)
  have "table_of h2' (Some (length (images h2))) =
    Some [decode_PartitionMetadata (slot_bytes (contents r2) 0),
          decode_PartitionMetadata (slot_bytes (contents r2) 1),
          decode_PartitionMetadata (slot_bytes (contents r2) 2),
          decode_PartitionMetadata (slot_bytes (contents r2) 3)]"
    using res2 assms(2) by (rule table_of_result)
  then have t2: "table_of h2' (Some (length (images h2))) = Some ?ms"
    by (simp add: same)
  have "AnalyzeImageFile fs1 h path = AnalyzeImageFile fs2 h path" for h
    using same
    by (simp add: AnalyzeImageFile_ok [of fs1 path r1 h, OF assms(1,3,5)]
          AnalyzeImageFile_ok [of fs2 path r2 h, OF assms(2,4,6)])
  then have "h1 = h2 \<longrightarrow> AnalyzeImageFile fs1 h1 path = AnalyzeImageFile fs2 h2 path"
    by simp
  with res1 res2 img1 img2 f1 f2 t1 t2 show ?thesis by simp
qed

text \<open>
  The scenario image and the second image differ before and after the table and give
  the same entries.
\<close>

theorem C10_depends_only_on_table_witness:
  "\<exists>a1 h1' a2 h2' ms.
     AnalyzeImageFile (single_file ''disk.img'' scenario_image) empty_heap ''disk.img'' =
       ((Some a1, None), h1') \<and>
     AnalyzeImageFile (single_file ''disk.img'' other_image) empty_heap ''disk.img'' =
       ((Some a2, None), h2') \<and>
     table_of h1' (Some a1) = Some ms \<and> table_of h2' (Some a2) = Some ms \<and>
     contents scenario_image \<noteq> contents other_image"
proof -
  have "take 64 (drop 446 (contents scenario_image)) = take 64 (drop 446 (contents other_image))"
    by (simp add: scenario_image_def other_image_def replicate_add [symmetric])
  moreover have "seekable scenario_image" "seekable other_image"
    "510 \<le> length (contents scenario_image)" "510 \<le> length (contents other_image)"
    by (simp_all add: scenario_image_def other_image_def)
  moreover have "contents scenario_image \<noteq> contents other_image"
    by (simp add: scenario_image_def other_image_def)
  ultimately show ?thesis
    using C10_depends_only_on_table [of "single_file ''disk.img'' scenario_image" "''disk.img''"
        scenario_image "single_file ''disk.img'' other_image" other_image empty_heap empty_heap]
    by (simp add: single_file_same) blast
qed

end
